theory Spec2Isabelle
  imports Complex_Main
begin

section \<open>Shared vocabulary\<close>

text \<open>
  Identifiers are \<^verbatim>\<open>uuid.UUID\<close> values; only equality and the distinguished
  \<^verbatim>\<open>uuid.Nil\<close> matter to the code, so they are natural numbers with \<open>0\<close> as
  \<^verbatim>\<open>uuid.Nil\<close>. Values of Go's \<^verbatim>\<open>interface{}\<close> (event payloads, saga context
  entries) are modelled by their JSON image. Amounts are \<^verbatim>\<open>float64\<close> in the source
  and exact reals here. Wall-clock fields (\<^verbatim>\<open>created_at\<close>, \<^verbatim>\<open>updated_at\<close>) and
  the fresh \<^verbatim>\<open>uuid.New()\<close> identifiers of emitted envelopes are left out; fresh
  identifiers of persisted rows are passed in as arguments.
\<close>

type_synonym uuid = nat

definition uuid_Nil :: uuid where
  "uuid_Nil = 0"

datatype jvalue =
    JNil
  | JStr string
  | JNum real
  | JUuid uuid
  | JList "jvalue list"
  | JObj "(string \<times> jvalue) list"

text \<open>Indexing a \<^verbatim>\<open>map[string]interface{}\<close>: a missing key yields the nil interface.\<close>

definition jget :: "(string \<times> jvalue) list \<Rightarrow> string \<Rightarrow> jvalue" where
  "jget m k = (case map_of m k of None \<Rightarrow> JNil | Some v \<Rightarrow> v)"

text \<open>The type assertion \<^verbatim>\<open>v.(map[string]interface{})\<close>; \<open>None\<close> is the run-time panic.\<close>

fun as_map :: "jvalue \<Rightarrow> (string \<times> jvalue) list option" where
  "as_map (JObj m) = Some m"
| "as_map _ = None"

text \<open>The checked type assertion \<^verbatim>\<open>s, ok := v.(string)\<close>.\<close>

fun as_string :: "jvalue \<Rightarrow> string option" where
  "as_string (JStr s) = Some s"
| "as_string _ = None"

type_synonym SagaEventType = string

definition OrderCreatedEvent :: SagaEventType where "OrderCreatedEvent = ''order.created''"
definition OrderCompletedEvent :: SagaEventType where "OrderCompletedEvent = ''order.completed''"
definition OrderCancelledEvent :: SagaEventType where "OrderCancelledEvent = ''order.cancelled''"
definition PaymentProcessedEvent :: SagaEventType where "PaymentProcessedEvent = ''payment.processed''"
definition PaymentFailedEvent :: SagaEventType where "PaymentFailedEvent = ''payment.failed''"
definition PaymentRefundedEvent :: SagaEventType where "PaymentRefundedEvent = ''payment.refunded''"
definition InventoryReservedEvent :: SagaEventType where "InventoryReservedEvent = ''inventory.reserved''"
definition InventoryFailedEvent :: SagaEventType where "InventoryFailedEvent = ''inventory.failed''"
definition InventoryReleasedEvent :: SagaEventType where "InventoryReleasedEvent = ''inventory.released''"
definition ShippingCreatedEvent :: SagaEventType where "ShippingCreatedEvent = ''shipping.created''"
definition ShippingFailedEvent :: SagaEventType where "ShippingFailedEvent = ''shipping.failed''"
definition ShippingCancelledEvent :: SagaEventType where "ShippingCancelledEvent = ''shipping.cancelled''"
definition NotificationSentEvent :: SagaEventType where "NotificationSentEvent = ''notification.sent''"
definition NotificationFailedEvent :: SagaEventType where "NotificationFailedEvent = ''notification.failed''"

text \<open>The wire envelope \<^verbatim>\<open>events.SagaEvent\<close>.\<close>

record SagaEvent =
  ev_SagaID :: uuid
  ev_OrderID :: uuid
  EventType :: SagaEventType
  Payload :: jvalue
  Service :: string

text \<open>How a handler invocation ends: it returns nil, returns an error, or panics.\<close>

datatype failure =
    SagaNotFound
  | SagaCreationError
  | UnknownStep
  | UnknownCompensationStep

datatype outcome = Done | Failed failure | Panicked

section \<open>Orchestrator: saga instance (\<^verbatim>\<open>domain.SagaInstance\<close>)\<close>

datatype SagaStatus =
    SagaStatusStarted
  | SagaStatusInProgress
  | SagaStatusCompleted
  | SagaStatusFailed
  | SagaStatusCompensating
  | SagaStatusCompensated

text \<open>\<open>StepEmpty\<close> is the empty string that \<^verbatim>\<open>GetNextStep\<close> and
  \<^verbatim>\<open>GetCompensationStep\<close> return when nothing is left.\<close>

datatype SagaStep =
    StepOrderCreated
  | StepPaymentProcessed
  | StepInventoryReserved
  | StepShippingCreated
  | StepNotificationSent
  | StepOrderCancelled
  | StepPaymentRefunded
  | StepInventoryReleased
  | StepShippingCancelled
  | StepEmpty

record SagaInstance =
  ID :: uuid
  OrderID :: uuid
  CustomerID :: uuid
  Status :: SagaStatus
  CurrentStep :: SagaStep
  CompletedSteps :: "SagaStep list"
  FailureReason :: string
  CompletedAt :: bool
  CompensatedSteps :: "SagaStep list"
  Context :: "(string \<times> jvalue) list"

definition IsStepCompleted :: "SagaInstance \<Rightarrow> SagaStep \<Rightarrow> bool" where
  "IsStepCompleted s step = (step \<in> set (CompletedSteps s))"

definition MarkStepCompleted :: "SagaInstance \<Rightarrow> SagaStep \<Rightarrow> SagaInstance" where
  "MarkStepCompleted s step =
     (let s1 = (if \<not> IsStepCompleted s step
                then s\<lparr>CompletedSteps := CompletedSteps s @ [step]\<rparr> else s)
      in s1\<lparr>CurrentStep := step\<rparr>)"

definition GetNextStep :: "SagaInstance \<Rightarrow> SagaStep" where
  "GetNextStep s =
     (case CurrentStep s of
        StepOrderCreated \<Rightarrow> StepPaymentProcessed
      | StepPaymentProcessed \<Rightarrow> StepInventoryReserved
      | StepInventoryReserved \<Rightarrow> StepShippingCreated
      | StepShippingCreated \<Rightarrow> StepNotificationSent
      | _ \<Rightarrow> StepEmpty)"

definition IsCompensationCompleted :: "SagaInstance \<Rightarrow> SagaStep \<Rightarrow> bool" where
  "IsCompensationCompleted s compensationStep = (compensationStep \<in> set (CompensatedSteps s))"

definition GetCompensationStep :: "SagaInstance \<Rightarrow> SagaStep" where
  "GetCompensationStep s =
     (if IsStepCompleted s StepShippingCreated \<and> \<not> IsCompensationCompleted s StepShippingCancelled
      then StepShippingCancelled
      else if IsStepCompleted s StepInventoryReserved \<and> \<not> IsCompensationCompleted s StepInventoryReleased
      then StepInventoryReleased
      else if IsStepCompleted s StepPaymentProcessed \<and> \<not> IsCompensationCompleted s StepPaymentRefunded
      then StepPaymentRefunded
      else if IsStepCompleted s StepOrderCreated \<and> \<not> IsCompensationCompleted s StepOrderCancelled
      then StepOrderCancelled
      else StepEmpty)"

definition MarkCompensationCompleted :: "SagaInstance \<Rightarrow> SagaStep \<Rightarrow> SagaInstance" where
  "MarkCompensationCompleted s compensationStep =
     (if \<not> IsCompensationCompleted s compensationStep
      then s\<lparr>CompensatedSteps := CompensatedSteps s @ [compensationStep]\<rparr> else s)"

text \<open>Assigning \<^verbatim>\<open>m[k] = v\<close> on a \<^verbatim>\<open>map[string]interface{}\<close>.\<close>

fun jset :: "(string \<times> jvalue) list \<Rightarrow> string \<Rightarrow> jvalue \<Rightarrow> (string \<times> jvalue) list" where
  "jset [] k v = [(k, v)]"
| "jset ((k', v') # m) k v = (if k' = k then (k, v) # m else (k', v') # jset m k v)"

section \<open>Orchestrator: repository (\<^verbatim>\<open>repository.SagaRepository\<close>)\<close>

text \<open>
  One row of \<^verbatim>\<open>saga_instances\<close>, with exactly the columns of the migration. The table
  has no column for \<^verbatim>\<open>CompensatedSteps\<close>, and none of the repository's statements
  names one.
\<close>

record saga_row =
  row_id :: uuid
  row_order_id :: uuid
  row_customer_id :: uuid
  row_status :: SagaStatus
  row_current_step :: SagaStep
  row_completed_steps :: "SagaStep list"
  row_failure_reason :: string
  row_context :: "(string \<times> jvalue) list"
  row_completed_at :: bool

text \<open>\<^verbatim>\<open>INSERT INTO saga_instances\<close>: the primary key and the unique \<^verbatim>\<open>order_id\<close>
  reject a colliding row.\<close>

definition CreateSaga :: "saga_row list \<Rightarrow> SagaInstance \<Rightarrow> failure + saga_row list" where
  "CreateSaga tbl saga =
     (if find (\<lambda>r. row_id r = ID saga \<or> row_order_id r = OrderID saga) tbl \<noteq> None
      then Inl SagaCreationError
      else Inr (tbl @ [\<lparr>row_id = ID saga, row_order_id = OrderID saga,
                        row_customer_id = CustomerID saga, row_status = Status saga,
                        row_current_step = CurrentStep saga,
                        row_completed_steps = CompletedSteps saga,
                        row_failure_reason = FailureReason saga,
                        row_context = Context saga, row_completed_at = False\<rparr>]))"

text \<open>\<^verbatim>\<open>SELECT ... WHERE id = $1\<close>; the scanned instance is a fresh struct, so its
  \<^verbatim>\<open>CompensatedSteps\<close> is the nil slice.\<close>

definition GetSagaByID :: "saga_row list \<Rightarrow> uuid \<Rightarrow> failure + SagaInstance" where
  "GetSagaByID tbl sagaID =
     (case find (\<lambda>r. row_id r = sagaID) tbl of
        None \<Rightarrow> Inl SagaNotFound
      | Some r \<Rightarrow> Inr \<lparr>ID = row_id r, OrderID = row_order_id r, CustomerID = row_customer_id r,
                       Status = row_status r, CurrentStep = row_current_step r,
                       CompletedSteps = row_completed_steps r,
                       FailureReason = row_failure_reason r,
                       CompletedAt = row_completed_at r,
                       CompensatedSteps = [], Context = row_context r\<rparr>)"

text \<open>\<^verbatim>\<open>UPDATE saga_instances SET status, current_step, completed_steps, failure_reason,
  context, updated_at, completed_at WHERE id = $1\<close>; zero affected rows is an error.\<close>

definition UpdateSaga :: "saga_row list \<Rightarrow> SagaInstance \<Rightarrow> failure + saga_row list" where
  "UpdateSaga tbl saga =
     (if find (\<lambda>r. row_id r = ID saga) tbl = None then Inl SagaNotFound
      else Inr (map (\<lambda>r. if row_id r = ID saga
                          then r\<lparr>row_status := Status saga,
                                 row_current_step := CurrentStep saga,
                                 row_completed_steps := CompletedSteps saga,
                                 row_failure_reason := FailureReason saga,
                                 row_context := Context saga,
                                 row_completed_at := CompletedAt saga\<rparr>
                          else r) tbl))"

section \<open>Orchestrator: service (\<^verbatim>\<open>service.SagaOrchestrator\<close>)\<close>

text \<open>
  The orchestrator's world is its table and the list of envelopes handed to the broker,
  in publication order. The broker connection is taken to be up, so
  \<^verbatim>\<open>PublishSagaEvent\<close> appends and returns nil.
\<close>

record orch =
  sagas :: "saga_row list"
  published :: "SagaEvent list"

definition PublishSagaEvent :: "orch \<Rightarrow> SagaEvent \<Rightarrow> orch \<times> outcome" where
  "PublishSagaEvent w event = (w\<lparr>published := published w @ [event]\<rparr>, Done)"

definition orchestrator_event :: "SagaInstance \<Rightarrow> SagaEventType \<Rightarrow> (string \<times> jvalue) list \<Rightarrow> SagaEvent" where
  "orchestrator_event saga ty payload =
     \<lparr>ev_SagaID = ID saga, ev_OrderID = OrderID saga, EventType = ty,
      Payload = JObj payload, Service = ''saga-orchestrator''\<rparr>"

text \<open>The UTF-8 bytes of the confirmation text of \<^verbatim>\<open>notification.send\<close>.\<close>

definition confirmation_message :: string where
  "confirmation_message =
     ''Sipari'' @ [CHR 0xC5, CHR 0x9F] @ ''iniz ba'' @ [CHR 0xC5, CHR 0x9F] @ ''ar''
       @ [CHR 0xC4, CHR 0xB1] @ ''yla olu'' @ [CHR 0xC5, CHR 0x9F] @ ''turuldu!''"

definition sendStepEvent :: "orch \<Rightarrow> SagaInstance \<Rightarrow> SagaStep \<Rightarrow> orch \<times> outcome" where
  "sendStepEvent w saga step =
     (case step of
        StepPaymentProcessed \<Rightarrow>
          PublishSagaEvent w (orchestrator_event saga ''payment.process''
            [(''order_id'', JUuid (OrderID saga)), (''customer_id'', JUuid (CustomerID saga)),
             (''amount'', jget (Context saga) ''total_amount''),
             (''payment_method'', JStr ''credit_card'')])
      | StepInventoryReserved \<Rightarrow>
          PublishSagaEvent w (orchestrator_event saga ''inventory.reserve''
            [(''order_id'', JUuid (OrderID saga)), (''items'', jget (Context saga) ''items'')])
      | StepShippingCreated \<Rightarrow>
          PublishSagaEvent w (orchestrator_event saga ''shipping.create''
            [(''order_id'', JUuid (OrderID saga)), (''customer_id'', JUuid (CustomerID saga)),
             (''items'', jget (Context saga) ''items'')])
      | StepNotificationSent \<Rightarrow>
          PublishSagaEvent w (orchestrator_event saga ''notification.send''
            [(''order_id'', JUuid (OrderID saga)), (''customer_id'', JUuid (CustomerID saga)),
             (''type'', JStr ''order_confirmation''), (''message'', JStr confirmation_message)])
      | _ \<Rightarrow> (w, Failed UnknownStep))"

definition sendCompensationEvent :: "orch \<Rightarrow> SagaInstance \<Rightarrow> SagaStep \<Rightarrow> orch \<times> outcome" where
  "sendCompensationEvent w saga compensationStep =
     (case compensationStep of
        StepShippingCancelled \<Rightarrow>
          PublishSagaEvent w (orchestrator_event saga ''shipping.cancel''
            [(''shipment_id'', jget (Context saga) ''shipment_id''),
             (''reason'', JStr (FailureReason saga))])
      | StepInventoryReleased \<Rightarrow>
          PublishSagaEvent w (orchestrator_event saga ''inventory.release''
            [(''reservation_ids'', jget (Context saga) ''reservation_ids''),
             (''reason'', JStr (FailureReason saga))])
      | StepPaymentRefunded \<Rightarrow>
          PublishSagaEvent w (orchestrator_event saga ''payment.refund''
            [(''payment_id'', jget (Context saga) ''payment_id''),
             (''transaction_id'', jget (Context saga) ''transaction_id''),
             (''amount'', jget (Context saga) ''total_amount''),
             (''reason'', JStr (FailureReason saga))])
      | StepOrderCancelled \<Rightarrow>
          PublishSagaEvent w (orchestrator_event saga ''order.cancel''
            [(''order_id'', JUuid (OrderID saga)), (''reason'', JStr (FailureReason saga))])
      | _ \<Rightarrow> (w, Failed UnknownCompensationStep))"

definition completeSaga :: "orch \<Rightarrow> SagaInstance \<Rightarrow> orch \<times> outcome" where
  "completeSaga w saga0 =
     (let saga = saga0\<lparr>Status := SagaStatusCompleted, CompletedAt := True\<rparr>
      in case UpdateSaga (sagas w) saga of
           Inl e \<Rightarrow> (w, Failed e)
         | Inr tbl \<Rightarrow>
             PublishSagaEvent (w\<lparr>sagas := tbl\<rparr>) (orchestrator_event saga OrderCompletedEvent
               [(''order_id'', JUuid (OrderID saga)), (''status'', JStr ''completed'')]))"

definition processNextStep :: "orch \<Rightarrow> SagaInstance \<Rightarrow> orch \<times> outcome" where
  "processNextStep w saga0 =
     (let nextStep = GetNextStep saga0
      in if nextStep = StepEmpty then completeSaga w saga0
         else (let saga = saga0\<lparr>Status := SagaStatusInProgress\<rparr>
               in case UpdateSaga (sagas w) saga of
                    Inl e \<Rightarrow> (w, Failed e)
                  | Inr tbl \<Rightarrow> sendStepEvent (w\<lparr>sagas := tbl\<rparr>) saga nextStep))"

definition compensationCompleted :: "orch \<Rightarrow> SagaInstance \<Rightarrow> orch \<times> outcome" where
  "compensationCompleted w saga0 =
     (let saga = saga0\<lparr>Status := SagaStatusCompensated, CompletedAt := True\<rparr>
      in case UpdateSaga (sagas w) saga of
           Inl e \<Rightarrow> (w, Failed e)
         | Inr tbl \<Rightarrow>
             PublishSagaEvent (w\<lparr>sagas := tbl\<rparr>) (orchestrator_event saga OrderCancelledEvent
               [(''order_id'', JUuid (OrderID saga)), (''reason'', JStr (FailureReason saga))]))"

definition startCompensation :: "orch \<Rightarrow> SagaInstance \<Rightarrow> orch \<times> outcome" where
  "startCompensation w saga =
     (let compensationStep = GetCompensationStep saga
      in if compensationStep = StepEmpty then compensationCompleted w saga
         else (case UpdateSaga (sagas w) saga of
                 Inl e \<Rightarrow> (w, Failed e)
               | Inr tbl \<Rightarrow> sendCompensationEvent (w\<lparr>sagas := tbl\<rparr>) saga compensationStep))"

definition HandleCompensationSuccess :: "orch \<Rightarrow> uuid \<Rightarrow> SagaStep \<Rightarrow> orch \<times> outcome" where
  "HandleCompensationSuccess w sagaID completedCompensation =
     (case GetSagaByID (sagas w) sagaID of
        Inl e \<Rightarrow> (w, Failed e)
      | Inr saga \<Rightarrow> startCompensation w (MarkCompensationCompleted saga completedCompensation))"

definition HandleStepFailure ::
  "orch \<Rightarrow> uuid \<Rightarrow> SagaStep \<Rightarrow> (string \<times> jvalue) list \<Rightarrow> orch \<times> outcome" where
  "HandleStepFailure w sagaID failedStep eventData =
     (case GetSagaByID (sagas w) sagaID of
        Inl e \<Rightarrow> (w, Failed e)
      | Inr saga0 \<Rightarrow>
          (let saga1 = (case as_string (jget eventData ''reason'') of
                          Some reason \<Rightarrow> saga0\<lparr>FailureReason := reason\<rparr>
                        | None \<Rightarrow> saga0)
           in startCompensation w (saga1\<lparr>Status := SagaStatusCompensating\<rparr>)))"

text \<open>The context merge of \<^verbatim>\<open>HandleStepSuccess\<close>; the event data is never the nil map
  here, because the caller's type assertion has already succeeded.\<close>

definition merge_step_outputs ::
  "SagaStep \<Rightarrow> (string \<times> jvalue) list \<Rightarrow> (string \<times> jvalue) list \<Rightarrow> (string \<times> jvalue) list" where
  "merge_step_outputs completedStep eventData ctx =
     (case completedStep of
        StepPaymentProcessed \<Rightarrow>
          jset (jset ctx ''payment_id'' (jget eventData ''payment_id''))
               ''transaction_id'' (jget eventData ''transaction_id'')
      | StepInventoryReserved \<Rightarrow>
          jset ctx ''reservation_ids'' (jget eventData ''reservation_ids'')
      | StepShippingCreated \<Rightarrow>
          jset (jset ctx ''shipment_id'' (jget eventData ''shipment_id''))
               ''tracking_id'' (jget eventData ''tracking_id'')
      | _ \<Rightarrow> ctx)"

definition HandleStepSuccess ::
  "orch \<Rightarrow> uuid \<Rightarrow> SagaStep \<Rightarrow> (string \<times> jvalue) list \<Rightarrow> orch \<times> outcome" where
  "HandleStepSuccess w sagaID completedStep eventData =
     (case GetSagaByID (sagas w) sagaID of
        Inl e \<Rightarrow> (w, Failed e)
      | Inr saga0 \<Rightarrow>
          (let saga1 = MarkStepCompleted saga0 completedStep;
               saga2 = saga1\<lparr>Context := merge_step_outputs completedStep eventData (Context saga1)\<rparr>
           in processNextStep w saga2))"

text \<open>A handler called with the payload asserted to be a map: the assertion is evaluated
  for the argument list, so a payload of another dynamic type panics before the call.\<close>

definition with_payload_map ::
  "orch \<Rightarrow> SagaEvent \<Rightarrow> ((string \<times> jvalue) list \<Rightarrow> orch \<times> outcome) \<Rightarrow> orch \<times> outcome" where
  "with_payload_map w event k =
     (case as_map (Payload event) of None \<Rightarrow> (w, Panicked) | Some eventData \<Rightarrow> k eventData)"

definition ProcessIncomingEvent :: "orch \<Rightarrow> SagaEvent \<Rightarrow> orch \<times> outcome" where
  "ProcessIncomingEvent w event =
     (if EventType event = PaymentProcessedEvent then
        with_payload_map w event (HandleStepSuccess w (ev_SagaID event) StepPaymentProcessed)
      else if EventType event = InventoryReservedEvent then
        with_payload_map w event (HandleStepSuccess w (ev_SagaID event) StepInventoryReserved)
      else if EventType event = ShippingCreatedEvent then
        with_payload_map w event (HandleStepSuccess w (ev_SagaID event) StepShippingCreated)
      else if EventType event = NotificationSentEvent then
        with_payload_map w event (HandleStepSuccess w (ev_SagaID event) StepNotificationSent)
      else if EventType event = PaymentFailedEvent then
        with_payload_map w event (HandleStepFailure w (ev_SagaID event) StepPaymentProcessed)
      else if EventType event = InventoryFailedEvent then
        with_payload_map w event (HandleStepFailure w (ev_SagaID event) StepInventoryReserved)
      else if EventType event = ShippingCancelledEvent then
        HandleCompensationSuccess w (ev_SagaID event) StepShippingCancelled
      else if EventType event = InventoryReleasedEvent then
        HandleCompensationSuccess w (ev_SagaID event) StepInventoryReleased
      else if EventType event = PaymentRefundedEvent then
        HandleCompensationSuccess w (ev_SagaID event) StepPaymentRefunded
      else (w, Done))"

text \<open>
  \<^verbatim>\<open>StartSaga\<close> takes the order of \<^verbatim>\<open>types.Order\<close>; \<open>sagaID\<close> is the value of
  \<^verbatim>\<open>uuid.New()\<close>. Nothing in the code base calls it.
\<close>

record OrderItem =
  item_ProductID :: uuid
  item_Quantity :: int
  item_Price :: real

record ShippingAddress =
  Street :: string
  City :: string
  State :: string
  ZipCode :: string
  Country :: string

record Order =
  order_ID :: uuid
  order_CustomerID :: uuid
  order_Items :: "OrderItem list"
  order_TotalAmount :: real
  order_Status :: string
  order_ShippingAddress :: "ShippingAddress option"

definition item_json :: "OrderItem \<Rightarrow> jvalue" where
  "item_json i = JObj [(''product_id'', JUuid (item_ProductID i)),
                       (''quantity'', JNum (real_of_int (item_Quantity i))),
                       (''price'', JNum (item_Price i))]"

definition address_json :: "ShippingAddress option \<Rightarrow> jvalue" where
  "address_json a =
     (case a of
        None \<Rightarrow> JNil
      | Some x \<Rightarrow> JObj [(''street'', JStr (Street x)), (''city'', JStr (City x)),
                        (''state'', JStr (State x)), (''zip_code'', JStr (ZipCode x)),
                        (''country'', JStr (Country x))])"

definition order_json :: "Order \<Rightarrow> jvalue" where
  "order_json order =
     JObj [(''id'', JUuid (order_ID order)), (''customer_id'', JUuid (order_CustomerID order)),
           (''items'', JList (map item_json (order_Items order))),
           (''total_amount'', JNum (order_TotalAmount order)),
           (''status'', JStr (order_Status order)),
           (''shipping_address'', address_json (order_ShippingAddress order))]"

definition StartSaga :: "orch \<Rightarrow> uuid \<Rightarrow> Order \<Rightarrow> orch \<times> outcome" where
  "StartSaga w sagaID order =
     (let saga = \<lparr>ID = sagaID, OrderID = order_ID order, CustomerID = order_CustomerID order,
                  Status = SagaStatusStarted, CurrentStep = StepOrderCreated,
                  CompletedSteps = [StepOrderCreated], FailureReason = [],
                  CompletedAt = False, CompensatedSteps = [],
                  Context = [(''order'', order_json order),
                             (''total_amount'', JNum (order_TotalAmount order)),
                             (''items'', JList (map item_json (order_Items order))),
                             (''retry_counts'', JObj [])]\<rparr>
      in case CreateSaga (sagas w) saga of
           Inl e \<Rightarrow> (w, Failed e)
         | Inr tbl \<Rightarrow> processNextStep (w\<lparr>sagas := tbl\<rparr>) saga)"

section \<open>Inventory participant\<close>

text \<open>Quantities are Go \<^verbatim>\<open>int\<close> and SQL \<^verbatim>\<open>INTEGER\<close>; they are unbounded integers
  here, the code doing no arithmetic near the limits.\<close>

datatype InventoryStatus =
    InventoryStatusAvailable
  | InventoryStatusReserved
  | InventoryStatusReleased
  | InventoryStatusSold

record Product =
  prod_ID :: uuid
  prod_Name :: string
  prod_Price :: real
  Stock :: int
  ReservedStock :: int

record Reservation =
  res_ID :: uuid
  res_OrderID :: uuid
  res_ProductID :: uuid
  res_SagaID :: uuid
  res_Quantity :: int
  res_Status :: InventoryStatus

record ReservationItem =
  ri_ProductID :: uuid
  ri_Quantity :: int

record InventoryReserveRequest =
  rq_SagaID :: uuid
  rq_OrderID :: uuid
  rq_Items :: "ReservationItem list"

record InventoryReleaseRequest =
  rl_SagaID :: uuid
  rl_OrderID :: uuid
  rl_ReservationIDs :: "uuid list"

definition NewReservationAggregate :: "uuid \<Rightarrow> uuid \<Rightarrow> uuid \<Rightarrow> uuid \<Rightarrow> int \<Rightarrow> Reservation" where
  "NewReservationAggregate newID orderID productID sagaID quantity =
     \<lparr>res_ID = newID, res_OrderID = orderID, res_ProductID = productID, res_SagaID = sagaID,
      res_Quantity = quantity, res_Status = InventoryStatusReserved\<rparr>"

text \<open>\<^verbatim>\<open>(*ReservationAggregate).Release\<close>\<close>

definition Reservation_Release :: "Reservation \<Rightarrow> Reservation" where
  "Reservation_Release r = r\<lparr>res_Status := InventoryStatusReleased\<rparr>"

definition CanReserve :: "Product \<Rightarrow> int \<Rightarrow> bool" where
  "CanReserve i quantity = (let availableStock = Stock i - ReservedStock i in availableStock \<ge> quantity)"

definition Reserve :: "Product \<Rightarrow> int \<Rightarrow> Product option" where
  "Reserve i quantity =
     (if \<not> CanReserve i quantity then None
      else Some (i\<lparr>ReservedStock := ReservedStock i + quantity\<rparr>))"

text \<open>\<^verbatim>\<open>(*InventoryAggregate).Release\<close>\<close>

definition Inventory_Release :: "Product \<Rightarrow> int \<Rightarrow> Product" where
  "Inventory_Release i quantity =
     (if ReservedStock i \<ge> quantity then i\<lparr>ReservedStock := ReservedStock i - quantity\<rparr> else i)"

text \<open>
  The inventory database: both tables in insertion order, and the published envelopes.
  Statements fail only where a constraint of the migration rejects them.
\<close>

record inventory =
  products :: "Product list"
  reservations :: "Reservation list"
  inv_published :: "SagaEvent list"

definition GetProductByID :: "Product list \<Rightarrow> uuid \<Rightarrow> Product option" where
  "GetProductByID tbl productID = find (\<lambda>p. prod_ID p = productID) tbl"

text \<open>\<^verbatim>\<open>UPDATE products SET stock, reserved_stock WHERE id\<close>, under the checks
  \<^verbatim>\<open>stock >= 0\<close>, \<^verbatim>\<open>reserved_stock >= 0\<close> and \<^verbatim>\<open>reserved_stock <= stock\<close>.\<close>

definition UpdateProduct :: "Product list \<Rightarrow> Product \<Rightarrow> Product list option" where
  "UpdateProduct tbl product =
     (if find (\<lambda>p. prod_ID p = prod_ID product) tbl \<noteq> None
         \<and> \<not> (0 \<le> Stock product \<and> 0 \<le> ReservedStock product \<and> ReservedStock product \<le> Stock product)
      then None
      else Some (map (\<lambda>p. if prod_ID p = prod_ID product
                            then p\<lparr>Stock := Stock product, ReservedStock := ReservedStock product\<rparr>
                            else p) tbl))"

text \<open>\<^verbatim>\<open>INSERT INTO inventory_reservations\<close>, under the primary key, the foreign key to
  \<^verbatim>\<open>products\<close> and the check \<^verbatim>\<open>quantity > 0\<close>.\<close>

definition CreateReservation :: "Product list \<Rightarrow> Reservation list \<Rightarrow> Reservation \<Rightarrow> Reservation list option" where
  "CreateReservation ptbl tbl reservation =
     (if find (\<lambda>r. res_ID r = res_ID reservation) tbl \<noteq> None then None
      else if find (\<lambda>p. prod_ID p = res_ProductID reservation) ptbl = None then None
      else if res_Quantity reservation \<le> 0 then None
      else Some (tbl @ [reservation]))"

definition UpdateReservation :: "Reservation list \<Rightarrow> Reservation \<Rightarrow> Reservation list" where
  "UpdateReservation tbl reservation =
     map (\<lambda>r. if res_ID r = res_ID reservation then r\<lparr>res_Status := res_Status reservation\<rparr> else r) tbl"

definition GetReservationsBySagaID :: "Reservation list \<Rightarrow> uuid \<Rightarrow> Reservation list" where
  "GetReservationsBySagaID tbl sagaID = filter (\<lambda>r. res_SagaID r = sagaID) tbl"

definition inventory_event :: "uuid \<Rightarrow> uuid \<Rightarrow> SagaEventType \<Rightarrow> jvalue \<Rightarrow> SagaEvent" where
  "inventory_event sagaID orderID ty payload =
     \<lparr>ev_SagaID = sagaID, ev_OrderID = orderID, EventType = ty, Payload = payload,
      Service = ''inventory-service''\<rparr>"

definition inv_publish :: "inventory \<Rightarrow> SagaEvent \<Rightarrow> inventory \<times> outcome" where
  "inv_publish store event = (store\<lparr>inv_published := inv_published store @ [event]\<rparr>, Done)"

definition status_text :: "InventoryStatus \<Rightarrow> string" where
  "status_text st =
     (case st of
        InventoryStatusAvailable \<Rightarrow> ''available''
      | InventoryStatusReserved \<Rightarrow> ''reserved''
      | InventoryStatusReleased \<Rightarrow> ''released''
      | InventoryStatusSold \<Rightarrow> ''sold'')"

definition reservation_json :: "Reservation \<Rightarrow> jvalue" where
  "reservation_json r =
     JObj [(''id'', JUuid (res_ID r)), (''order_id'', JUuid (res_OrderID r)),
           (''product_id'', JUuid (res_ProductID r)),
           (''quantity'', JNum (real_of_int (res_Quantity r))),
           (''status'', JStr (status_text (res_Status r)))]"

definition publishInventoryReservedEvent ::
  "inventory \<Rightarrow> uuid \<Rightarrow> uuid \<Rightarrow> Reservation list \<Rightarrow> inventory \<times> outcome" where
  "publishInventoryReservedEvent store sagaID orderID rs =
     inv_publish store (inventory_event sagaID orderID InventoryReservedEvent
       (JObj [(''reservations'', JList (map reservation_json rs))]))"

text \<open>The reason is the constant part of the formatted text; an appended driver message
  is left out.\<close>

definition publishInventoryFailedEvent ::
  "inventory \<Rightarrow> uuid \<Rightarrow> uuid \<Rightarrow> uuid \<Rightarrow> string \<Rightarrow> inventory \<times> outcome" where
  "publishInventoryFailedEvent store sagaID orderID productID reason =
     inv_publish store (inventory_event sagaID orderID InventoryFailedEvent
       (JObj [(''order_id'', JUuid orderID), (''product_id'', JUuid productID),
              (''reason'', JStr reason)]))"

definition publishInventoryReleasedEvent ::
  "inventory \<Rightarrow> uuid \<Rightarrow> uuid \<Rightarrow> Reservation list \<Rightarrow> inventory \<times> outcome" where
  "publishInventoryReleasedEvent store sagaID orderID rs =
     inv_publish store (inventory_event sagaID orderID InventoryReleasedEvent
       (JObj [(''order_id'', JUuid orderID),
              (''reservation_ids'', JList (map (\<lambda>r. JUuid (res_ID r)) rs))]))"

text \<open>
  The loop of \<^verbatim>\<open>ReserveInventory\<close> over the remaining items; \<open>acc\<close> is the slice
  \<^verbatim>\<open>reservations\<close>, and \<open>fresh n\<close> is the \<^verbatim>\<open>uuid.New()\<close> of the \<open>n\<close>-th created
  reservation. Every failure branch returns at once with what has been written so far.
\<close>

fun reserve_items ::
  "inventory \<Rightarrow> (nat \<Rightarrow> uuid) \<Rightarrow> nat \<Rightarrow> InventoryReserveRequest \<Rightarrow> ReservationItem list
     \<Rightarrow> Reservation list \<Rightarrow> inventory \<times> outcome" where
  "reserve_items store fresh n request [] acc =
     publishInventoryReservedEvent store (rq_SagaID request) (rq_OrderID request) acc"
| "reserve_items store fresh n request (item # rest) acc =
     (case GetProductByID (products store) (ri_ProductID item) of
        None \<Rightarrow>
          publishInventoryFailedEvent store (rq_SagaID request) (rq_OrderID request)
            (ri_ProductID item) ''Product not found''
      | Some product \<Rightarrow>
          if \<not> CanReserve product (ri_Quantity item) then
            publishInventoryFailedEvent store (rq_SagaID request) (rq_OrderID request)
              (ri_ProductID item) ''Insufficient stock''
          else
            (case Reserve product (ri_Quantity item) of
               None \<Rightarrow>
                 publishInventoryFailedEvent store (rq_SagaID request) (rq_OrderID request)
                   (ri_ProductID item) ''insufficient stock''
             | Some product' \<Rightarrow>
                 (case UpdateProduct (products store) product' of
                    None \<Rightarrow>
                      publishInventoryFailedEvent store (rq_SagaID request) (rq_OrderID request)
                        (ri_ProductID item) ''Failed to update product''
                  | Some ptbl \<Rightarrow>
                      (let store1 = store\<lparr>products := ptbl\<rparr>;
                           reservation = NewReservationAggregate (fresh n) (rq_OrderID request)
                                           (ri_ProductID item) (rq_SagaID request) (ri_Quantity item)
                       in case CreateReservation ptbl (reservations store1) reservation of
                            None \<Rightarrow>
                              publishInventoryFailedEvent store1 (rq_SagaID request)
                                (rq_OrderID request) (ri_ProductID item)
                                ''Failed to create reservation''
                          | Some rtbl \<Rightarrow>
                              reserve_items (store1\<lparr>reservations := rtbl\<rparr>) fresh (Suc n) request
                                rest (acc @ [reservation])))))"

definition ReserveInventory ::
  "inventory \<Rightarrow> (nat \<Rightarrow> uuid) \<Rightarrow> InventoryReserveRequest \<Rightarrow> inventory \<times> outcome" where
  "ReserveInventory store fresh request = reserve_items store fresh 0 request (rq_Items request) []"

text \<open>
  The loop of \<^verbatim>\<open>ReleaseInventory\<close> over the reservations read at its start. A product
  that cannot be read skips the reservation; the results of both updates are discarded
  by the source, so a rejected product update leaves the product as it was.
\<close>

fun release_reservations :: "inventory \<Rightarrow> Reservation list \<Rightarrow> inventory" where
  "release_reservations store [] = store"
| "release_reservations store (reservation # rest) =
     (case GetProductByID (products store) (res_ProductID reservation) of
        None \<Rightarrow> release_reservations store rest
      | Some product0 \<Rightarrow>
          (let product = Inventory_Release product0 (res_Quantity reservation);
               ptbl = (case UpdateProduct (products store) product of
                         None \<Rightarrow> products store | Some t \<Rightarrow> t);
               rtbl = UpdateReservation (reservations store) (Reservation_Release reservation)
           in release_reservations (store\<lparr>products := ptbl, reservations := rtbl\<rparr>) rest))"

definition ReleaseInventory :: "inventory \<Rightarrow> InventoryReleaseRequest \<Rightarrow> inventory \<times> outcome" where
  "ReleaseInventory store request =
     (let rs = GetReservationsBySagaID (reservations store) (rl_SagaID request)
      in publishInventoryReleasedEvent (release_reservations store rs)
           (rl_SagaID request) (rl_OrderID request) rs)"

section \<open>Payment participant\<close>

datatype PaymentStatus =
    PaymentStatusPending
  | PaymentStatusCompleted
  | PaymentStatusFailed
  | PaymentStatusRefunded

text \<open>\<^verbatim>\<open>domain.PaymentAggregate\<close> with the embedded \<^verbatim>\<open>types.Payment\<close>; the two
  nullable timestamps are kept as "is set".\<close>

record PaymentAggregate =
  pay_ID :: uuid
  pay_OrderID :: uuid
  pay_CustomerID :: uuid
  Amount :: real
  PaymentMethod :: string
  pay_Status :: PaymentStatus
  TransactionID :: string
  pay_SagaID :: uuid
  ExternalRef :: string
  pay_FailureReason :: string
  RefundedAmount :: real
  RefundReference :: string
  ProcessedAt :: bool
  RefundedAt :: bool

definition NewPaymentAggregate ::
  "uuid \<Rightarrow> uuid \<Rightarrow> uuid \<Rightarrow> uuid \<Rightarrow> real \<Rightarrow> string \<Rightarrow> PaymentAggregate" where
  "NewPaymentAggregate newID orderID customerID sagaID amount paymentMethod =
     \<lparr>pay_ID = newID, pay_OrderID = orderID, pay_CustomerID = customerID, Amount = amount,
      PaymentMethod = paymentMethod, pay_Status = PaymentStatusPending, TransactionID = [],
      pay_SagaID = sagaID, ExternalRef = [], pay_FailureReason = [], RefundedAmount = 0,
      RefundReference = [], ProcessedAt = False, RefundedAt = False\<rparr>"

text \<open>\<^verbatim>\<open>(*PaymentAggregate).ProcessPayment\<close>\<close>

definition Payment_ProcessPayment :: "PaymentAggregate \<Rightarrow> string \<Rightarrow> string \<Rightarrow> PaymentAggregate" where
  "Payment_ProcessPayment p transactionID externalRef =
     p\<lparr>pay_Status := PaymentStatusCompleted, TransactionID := transactionID,
       ExternalRef := externalRef, ProcessedAt := True\<rparr>"

datatype refund_error = NotCompleted | InvalidRefundAmount | RefundLimitExceeded

definition RefundPayment :: "PaymentAggregate \<Rightarrow> string \<Rightarrow> real \<Rightarrow> refund_error + PaymentAggregate" where
  "RefundPayment p refundRef amount =
     (if pay_Status p \<noteq> PaymentStatusCompleted then Inl NotCompleted
      else if amount \<le> 0 \<or> amount > Amount p then Inl InvalidRefundAmount
      else if RefundedAmount p + amount > Amount p then Inl RefundLimitExceeded
      else Inr (p\<lparr>pay_Status := PaymentStatusRefunded,
                   RefundedAmount := RefundedAmount p + amount,
                   RefundReference := refundRef, RefundedAt := True\<rparr>))"

definition CanRefund :: "PaymentAggregate \<Rightarrow> bool" where
  "CanRefund p = (pay_Status p = PaymentStatusCompleted \<and> RefundedAmount p < Amount p)"

definition GetRemainingRefundAmount :: "PaymentAggregate \<Rightarrow> real" where
  "GetRemainingRefundAmount p = Amount p - RefundedAmount p"

definition IsFullyRefunded :: "PaymentAggregate \<Rightarrow> bool" where
  "IsFullyRefunded p = (RefundedAmount p \<ge> Amount p)"

definition FailPayment :: "PaymentAggregate \<Rightarrow> string \<Rightarrow> PaymentAggregate" where
  "FailPayment p reason = p\<lparr>pay_Status := PaymentStatusFailed, pay_FailureReason := reason\<rparr>"




subsection \<open>Repository (\<^verbatim>\<open>repository.PaymentRepository\<close>)\<close>

text \<open>The checks of the \<^verbatim>\<open>payments\<close> table: \<^verbatim>\<open>amount > 0\<close>,
  \<^verbatim>\<open>refunded_amount >= 0\<close> and \<^verbatim>\<open>refunded_amount <= amount\<close>.\<close>

definition payment_checks :: "real \<Rightarrow> real \<Rightarrow> bool" where
  "payment_checks amount refunded = (0 < amount \<and> 0 \<le> refunded \<and> refunded \<le> amount)"

text \<open>\<^verbatim>\<open>INSERT INTO payments\<close>: rejected by the primary key, by the unique index on
  \<^verbatim>\<open>order_id\<close>, or by a check.\<close>

definition CreatePayment :: "PaymentAggregate list \<Rightarrow> PaymentAggregate \<Rightarrow> PaymentAggregate list option" where
  "CreatePayment tbl payment =
     (if find (\<lambda>r. pay_ID r = pay_ID payment \<or> pay_OrderID r = pay_OrderID payment) tbl \<noteq> None
      then None
      else if \<not> payment_checks (Amount payment) (RefundedAmount payment) then None
      else Some (tbl @ [payment]))"

text \<open>\<^verbatim>\<open>UPDATE payments SET status, transaction_id, external_ref, failure_reason,
  refunded_amount, refund_reference, updated_at, processed_at, refunded_at WHERE id\<close>;
  zero affected rows is an error.\<close>

definition UpdatePayment :: "PaymentAggregate list \<Rightarrow> PaymentAggregate \<Rightarrow> PaymentAggregate list option" where
  "UpdatePayment tbl payment =
     (case find (\<lambda>r. pay_ID r = pay_ID payment) tbl of
        None \<Rightarrow> None
      | Some old \<Rightarrow>
          if \<not> payment_checks (Amount old) (RefundedAmount payment) then None
          else Some (map (\<lambda>r. if pay_ID r = pay_ID payment
                                then r\<lparr>pay_Status := pay_Status payment,
                                       TransactionID := TransactionID payment,
                                       ExternalRef := ExternalRef payment,
                                       pay_FailureReason := pay_FailureReason payment,
                                       RefundedAmount := RefundedAmount payment,
                                       RefundReference := RefundReference payment,
                                       ProcessedAt := ProcessedAt payment,
                                       RefundedAt := RefundedAt payment\<rparr>
                                else r) tbl))"

definition GetPaymentByID :: "PaymentAggregate list \<Rightarrow> uuid \<Rightarrow> PaymentAggregate option" where
  "GetPaymentByID tbl paymentID = find (\<lambda>r. pay_ID r = paymentID) tbl"

text \<open>\<^verbatim>\<open>... WHERE saga_id = $1 ORDER BY created_at DESC\<close>: newest first.\<close>

definition GetPaymentsBySagaID :: "PaymentAggregate list \<Rightarrow> uuid \<Rightarrow> PaymentAggregate list" where
  "GetPaymentsBySagaID tbl sagaID = rev (filter (\<lambda>r. pay_SagaID r = sagaID) tbl)"

subsection \<open>Service (\<^verbatim>\<open>service.PaymentService\<close>)\<close>

record PaymentProcessRequest =
  pp_SagaID :: uuid
  pp_OrderID :: uuid
  pp_CustomerID :: uuid
  pp_Amount :: real
  pp_PaymentMethod :: string

record PaymentRefundRequest =
  pr_SagaID :: uuid
  pr_PaymentID :: uuid
  pr_TransactionID :: string
  pr_Amount :: real
  pr_Reason :: string

text \<open>What a gateway call returns: an error text, or a response. The gateway is an
  external collaborator, so its answer is an argument of the handler.\<close>

record PaymentResponse =
  gw_Success :: bool
  gw_TransactionID :: string
  gw_ExternalRef :: string
  gw_FailureReason :: string

record RefundResponse =
  rf_Success :: bool
  rf_RefundReference :: string
  rf_FailureReason :: string

record paydb =
  payments :: "PaymentAggregate list"
  pay_published :: "SagaEvent list"

definition pay_publish :: "paydb \<Rightarrow> SagaEvent \<Rightarrow> paydb \<times> outcome" where
  "pay_publish store event = (store\<lparr>pay_published := pay_published store @ [event]\<rparr>, Done)"

definition payment_status_text :: "PaymentStatus \<Rightarrow> string" where
  "payment_status_text st =
     (case st of
        PaymentStatusPending \<Rightarrow> ''pending''
      | PaymentStatusCompleted \<Rightarrow> ''completed''
      | PaymentStatusFailed \<Rightarrow> ''failed''
      | PaymentStatusRefunded \<Rightarrow> ''refunded'')"

text \<open>The payload of \<^verbatim>\<open>payment.processed\<close> is \<^verbatim>\<open>PaymentProcessedPayload\<close>: the
  embedded \<^verbatim>\<open>types.Payment\<close> under the key \<^verbatim>\<open>payment\<close>.\<close>

definition publishPaymentProcessedEvent :: "paydb \<Rightarrow> PaymentAggregate \<Rightarrow> paydb \<times> outcome" where
  "publishPaymentProcessedEvent store payment =
     pay_publish store
       \<lparr>ev_SagaID = pay_SagaID payment, ev_OrderID = pay_OrderID payment,
        EventType = PaymentProcessedEvent,
        Payload = JObj [(''payment'',
                    JObj [(''id'', JUuid (pay_ID payment)),
                          (''order_id'', JUuid (pay_OrderID payment)),
                          (''customer_id'', JUuid (pay_CustomerID payment)),
                          (''amount'', JNum (Amount payment)),
                          (''payment_method'', JStr (PaymentMethod payment)),
                          (''status'', JStr (payment_status_text (pay_Status payment))),
                          (''transaction_id'', JStr (TransactionID payment))])],
        Service = ''payment-service''\<rparr>"

definition publishPaymentFailedEvent :: "paydb \<Rightarrow> uuid \<Rightarrow> uuid \<Rightarrow> string \<Rightarrow> real \<Rightarrow> paydb \<times> outcome" where
  "publishPaymentFailedEvent store sagaID orderID reason amount =
     pay_publish store
       \<lparr>ev_SagaID = sagaID, ev_OrderID = orderID, EventType = PaymentFailedEvent,
        Payload = JObj [(''order_id'', JUuid orderID), (''reason'', JStr reason),
                        (''amount'', JNum amount)],
        Service = ''payment-service''\<rparr>"

definition publishPaymentRefundedEvent :: "paydb \<Rightarrow> PaymentAggregate \<Rightarrow> real \<Rightarrow> paydb \<times> outcome" where
  "publishPaymentRefundedEvent store payment refundAmount =
     pay_publish store
       \<lparr>ev_SagaID = pay_SagaID payment, ev_OrderID = pay_OrderID payment,
        EventType = PaymentRefundedEvent,
        Payload = JObj [(''payment_id'', JUuid (pay_ID payment)),
                        (''transaction_id'', JStr (TransactionID payment)),
                        (''refund_reference'', JStr (RefundReference payment)),
                        (''refunded_amount'', JNum refundAmount),
                        (''total_refunded'', JNum (RefundedAmount payment))],
        Service = ''payment-service''\<rparr>"

definition publishRefundFailedEvent :: "paydb \<Rightarrow> uuid \<Rightarrow> string \<Rightarrow> paydb \<times> outcome" where
  "publishRefundFailedEvent store sagaID reason =
     pay_publish store
       \<lparr>ev_SagaID = sagaID, ev_OrderID = uuid_Nil, EventType = ''payment.refund.failed'',
        Payload = JObj [(''reason'', JStr reason)], Service = ''payment-service''\<rparr>"

text \<open>The result of \<^verbatim>\<open>UpdatePayment\<close> is dropped or only logged by the service, so a
  rejected update leaves the table as it was.\<close>

definition UpdatePayment_ignoring_error :: "paydb \<Rightarrow> PaymentAggregate \<Rightarrow> paydb" where
  "UpdatePayment_ignoring_error store payment =
     (case UpdatePayment (payments store) payment of
        None \<Rightarrow> store
      | Some tbl \<Rightarrow> store\<lparr>payments := tbl\<rparr>)"

text \<open>\<^verbatim>\<open>ProcessPayment\<close> of the service; \<open>newID\<close> is the \<^verbatim>\<open>uuid.New()\<close> of the
  aggregate, \<open>gw\<close> what the gateway answers. Reasons are the constant part of the
  formatted text.\<close>

definition ProcessPayment ::
  "paydb \<Rightarrow> uuid \<Rightarrow> string + PaymentResponse \<Rightarrow> PaymentProcessRequest \<Rightarrow> paydb \<times> outcome" where
  "ProcessPayment store newID gw request =
     (if pp_Amount request \<le> 0 then
        publishPaymentFailedEvent store (pp_SagaID request) (pp_OrderID request)
          ''Invalid payment amount'' (pp_Amount request)
      else
        (let payment = NewPaymentAggregate newID (pp_OrderID request) (pp_CustomerID request)
                         (pp_SagaID request) (pp_Amount request) (pp_PaymentMethod request)
         in case CreatePayment (payments store) payment of
              None \<Rightarrow>
                publishPaymentFailedEvent store (pp_SagaID request) (pp_OrderID request)
                  ''Database error'' (pp_Amount request)
            | Some tbl \<Rightarrow>
                (let store1 = store\<lparr>payments := tbl\<rparr>
                 in case gw of
                      Inl err \<Rightarrow>
                        publishPaymentFailedEvent
                          (UpdatePayment_ignoring_error store1 (FailPayment payment ''Gateway error''))
                          (pp_SagaID request) (pp_OrderID request)
                          ''Payment gateway error'' (pp_Amount request)
                    | Inr gatewayResponse \<Rightarrow>
                        if \<not> gw_Success gatewayResponse then
                          publishPaymentFailedEvent
                            (UpdatePayment_ignoring_error store1
                               (FailPayment payment (gw_FailureReason gatewayResponse)))
                            (pp_SagaID request) (pp_OrderID request)
                            (gw_FailureReason gatewayResponse) (pp_Amount request)
                        else
                          (let paid = Payment_ProcessPayment payment
                                        (gw_TransactionID gatewayResponse)
                                        (gw_ExternalRef gatewayResponse)
                           in publishPaymentProcessedEvent
                                (UpdatePayment_ignoring_error store1 paid) paid))))"

text \<open>
  The lookup at the head of \<^verbatim>\<open>ProcessRefund\<close>. It yields the pointer \<^verbatim>\<open>payment\<close>
  (\<open>None\<close> is nil) and whether the outer \<^verbatim>\<open>err\<close> is set. The second branch declares
  its own \<^verbatim>\<open>err\<close> with \<^verbatim>\<open>:=\<close>, so it never sets the outer one; when neither branch
  is taken both stay at their zero values.
\<close>

definition locate_payment :: "paydb \<Rightarrow> PaymentRefundRequest \<Rightarrow> PaymentAggregate option \<times> bool" where
  "locate_payment store request =
     (if pr_PaymentID request \<noteq> uuid_Nil then
        (case GetPaymentByID (payments store) (pr_PaymentID request) of
           None \<Rightarrow> (None, True)
         | Some p \<Rightarrow> (Some p, False))
      else if pr_TransactionID request \<noteq> [] then
        (case GetPaymentsBySagaID (payments store) (pr_SagaID request) of
           [] \<Rightarrow> (None, False)
         | p # rest \<Rightarrow> (Some p, False))
      else (None, False))"

definition not_found_text :: string where
  "not_found_text = ''Payment bulunamad'' @ [CHR 0xC4, CHR 0xB1]"

definition invalid_amount_text :: string where
  "invalid_amount_text = ''Ge'' @ [CHR 0xC3, CHR 0xA7] @ ''ersiz refund amount''"

definition ProcessRefund ::
  "paydb \<Rightarrow> string + RefundResponse \<Rightarrow> PaymentRefundRequest \<Rightarrow> paydb \<times> outcome" where
  "ProcessRefund store gw request =
     (case locate_payment store request of
        (found, True) \<Rightarrow> publishRefundFailedEvent store (pr_SagaID request) not_found_text
      | (None, False) \<Rightarrow> (store, Panicked)
      | (Some payment, False) \<Rightarrow>
          if \<not> CanRefund payment then
            publishRefundFailedEvent store (pr_SagaID request) ''Payment refund edilemez''
          else
            (let refundAmount = pr_Amount request
             in if refundAmount \<le> 0 \<or> refundAmount > GetRemainingRefundAmount payment then
                  publishRefundFailedEvent store (pr_SagaID request) invalid_amount_text
                else
                  (case gw of
                     Inl err \<Rightarrow>
                       publishRefundFailedEvent store (pr_SagaID request) ''Gateway refund error''
                   | Inr gatewayResponse \<Rightarrow>
                       if \<not> rf_Success gatewayResponse then
                         publishRefundFailedEvent store (pr_SagaID request)
                           (rf_FailureReason gatewayResponse)
                       else
                         (case RefundPayment payment (rf_RefundReference gatewayResponse) refundAmount of
                            Inl e \<Rightarrow>
                              publishRefundFailedEvent store (pr_SagaID request)
                                ''Refund processing error''
                          | Inr refunded \<Rightarrow>
                              publishPaymentRefundedEvent
                                (UpdatePayment_ignoring_error store refunded)
                                refunded refundAmount))))"

text \<open>
  \<^verbatim>\<open>mapToPaymentRefundRequest\<close> of the payment handler. A \<open>JUuid\<close> on the wire is the
  JSON string holding that identifier's canonical text; \<open>parse\<close> is \<^verbatim>\<open>uuid.Parse\<close> on
  any other string. \<open>None\<close> is the returned mapping error.
\<close>

fun as_number :: "jvalue \<Rightarrow> real option" where
  "as_number (JNum x) = Some x"
| "as_number _ = None"

fun as_uuid :: "(string \<Rightarrow> uuid option) \<Rightarrow> jvalue \<Rightarrow> uuid option" where
  "as_uuid parse (JUuid u) = Some u"
| "as_uuid parse (JStr s) = parse s"
| "as_uuid parse _ = None"

definition mapToPaymentRefundRequest ::
  "(string \<Rightarrow> uuid option) \<Rightarrow> uuid \<Rightarrow> (string \<times> jvalue) list \<Rightarrow> PaymentRefundRequest option" where
  "mapToPaymentRefundRequest parse sagaID payload =
     (case as_number (jget payload ''amount'') of
        None \<Rightarrow> None
      | Some amount \<Rightarrow>
          Some \<lparr>pr_SagaID = sagaID,
                pr_PaymentID = (case as_uuid parse (jget payload ''payment_id'') of
                                  None \<Rightarrow> uuid_Nil | Some u \<Rightarrow> u),
                pr_TransactionID = (case as_string (jget payload ''transaction_id'') of
                                      None \<Rightarrow> [] | Some t \<Rightarrow> t),
                pr_Amount = amount,
                pr_Reason = (case as_string (jget payload ''reason'') of
                               None \<Rightarrow> [] | Some r \<Rightarrow> r)\<rparr>)"

text \<open>\<^verbatim>\<open>handlePaymentRefundCommand\<close>: a payload that is no map, or that does not map,
  is a returned error (\<open>None\<close>); otherwise the service runs.\<close>

definition handlePaymentRefundCommand ::
  "(string \<Rightarrow> uuid option) \<Rightarrow> paydb \<Rightarrow> string + RefundResponse \<Rightarrow> SagaEvent
     \<Rightarrow> (paydb \<times> outcome) option" where
  "handlePaymentRefundCommand parse store gw event =
     (case as_map (Payload event) of
        None \<Rightarrow> None
      | Some payloadMap \<Rightarrow>
          (case mapToPaymentRefundRequest parse (ev_SagaID event) payloadMap of
             None \<Rightarrow> None
           | Some request \<Rightarrow> Some (ProcessRefund store gw request)))"

section \<open>Concrete scenarios\<close>

text \<open>A saga that has already advanced to \<open>inventory_reserved\<close>, and the
  \<^verbatim>\<open>payment.processed\<close> reply of the payment service delivered once more.\<close>

definition advanced_row :: saga_row where
  "advanced_row =
     \<lparr>row_id = 1, row_order_id = 10, row_customer_id = 20, row_status = SagaStatusInProgress,
      row_current_step = StepInventoryReserved,
      row_completed_steps = [StepOrderCreated, StepPaymentProcessed, StepInventoryReserved],
      row_failure_reason = [],
      row_context = [(''total_amount'', JNum 100), (''items'', JList []),
                     (''payment_id'', JNil), (''transaction_id'', JNil),
                     (''reservation_ids'', JNil)],
      row_completed_at = False\<rparr>"

definition advanced_world :: orch where
  "advanced_world = \<lparr>sagas = [advanced_row], published = []\<rparr>"

definition duplicate_payment_processed :: SagaEvent where
  "duplicate_payment_processed =
     \<lparr>ev_SagaID = 1, ev_OrderID = 10, EventType = PaymentProcessedEvent,
      Payload = JObj [(''payment'', JObj [(''id'', JUuid 30), (''order_id'', JUuid 10),
                                          (''status'', JStr ''completed'')])],
      Service = ''payment-service''\<rparr>"

text \<open>A saga compensating after \<^verbatim>\<open>inventory.failed\<close>, whose refund command has been
  sent, and the \<^verbatim>\<open>payment.refunded\<close> reply.\<close>

definition compensating_row :: saga_row where
  "compensating_row =
     \<lparr>row_id = 1, row_order_id = 10, row_customer_id = 20, row_status = SagaStatusCompensating,
      row_current_step = StepPaymentProcessed,
      row_completed_steps = [StepOrderCreated, StepPaymentProcessed],
      row_failure_reason = ''Insufficient stock'',
      row_context = [(''total_amount'', JNum 100), (''items'', JList []),
                     (''payment_id'', JNil), (''transaction_id'', JNil)],
      row_completed_at = False\<rparr>"

definition compensating_world :: orch where
  "compensating_world = \<lparr>sagas = [compensating_row], published = []\<rparr>"

definition payment_refunded_reply :: SagaEvent where
  "payment_refunded_reply =
     \<lparr>ev_SagaID = 1, ev_OrderID = 10, EventType = PaymentRefundedEvent,
      Payload = JObj [(''payment_id'', JUuid 30), (''refunded_amount'', JNum 100)],
      Service = ''payment-service''\<rparr>"

text \<open>Two products, and a request whose second item exceeds the stock.\<close>

definition shop :: inventory where
  "shop =
     \<lparr>products = [\<lparr>prod_ID = 1, prod_Name = ''Laptop Pro 15'', prod_Price = 1299.99,
                    Stock = 50, ReservedStock = 0\<rparr>,
                  \<lparr>prod_ID = 2, prod_Name = ''Wireless Mouse'', prod_Price = 49.99,
                    Stock = 1, ReservedStock = 0\<rparr>],
      reservations = [], inv_published = []\<rparr>"

definition short_request :: InventoryReserveRequest where
  "short_request =
     \<lparr>rq_SagaID = 7, rq_OrderID = 10,
      rq_Items = [\<lparr>ri_ProductID = 1, ri_Quantity = 2\<rparr>, \<lparr>ri_ProductID = 2, ri_Quantity = 5\<rparr>]\<rparr>"

text \<open>One product held by two sagas, and the release request of the first.\<close>

definition shared_stock :: inventory where
  "shared_stock =
     \<lparr>products = [\<lparr>prod_ID = 1, prod_Name = ''USB-C Hub'', prod_Price = 79.99,
                    Stock = 10, ReservedStock = 5\<rparr>],
      reservations = [\<lparr>res_ID = 100, res_OrderID = 10, res_ProductID = 1, res_SagaID = 7,
                        res_Quantity = 2, res_Status = InventoryStatusReserved\<rparr>,
                      \<lparr>res_ID = 101, res_OrderID = 11, res_ProductID = 1, res_SagaID = 8,
                        res_Quantity = 3, res_Status = InventoryStatusReserved\<rparr>],
      inv_published = []\<rparr>"

definition release_request :: InventoryReleaseRequest where
  "release_request = \<lparr>rl_SagaID = 7, rl_OrderID = 10, rl_ReservationIDs = [100]\<rparr>"

text \<open>A completed payment for order 10, and a second \<^verbatim>\<open>payment.process\<close> for it.\<close>

definition paid_row :: PaymentAggregate where
  "paid_row =
     \<lparr>pay_ID = 30, pay_OrderID = 10, pay_CustomerID = 20, Amount = 100,
      PaymentMethod = ''credit_card'', pay_Status = PaymentStatusCompleted,
      TransactionID = ''TXN_1'', pay_SagaID = 1, ExternalRef = ''REF_1'',
      pay_FailureReason = [], RefundedAmount = 0, RefundReference = [],
      ProcessedAt = True, RefundedAt = False\<rparr>"

definition paid_store :: paydb where
  "paid_store = \<lparr>payments = [paid_row], pay_published = []\<rparr>"

definition duplicate_process_request :: PaymentProcessRequest where
  "duplicate_process_request =
     \<lparr>pp_SagaID = 1, pp_OrderID = 10, pp_CustomerID = 20, pp_Amount = 100,
      pp_PaymentMethod = ''credit_card''\<rparr>"

definition approving_gateway :: "string + PaymentResponse" where
  "approving_gateway =
     Inr \<lparr>gw_Success = True, gw_TransactionID = ''TXN_2'', gw_ExternalRef = ''REF_2'',
          gw_FailureReason = []\<rparr>"




section \<open>Auxiliary notions for the proofs\<close>

text \<open>The reservations a release loop over \<open>rs\<close> touches (those whose product can be
  read), and what it does to a row of the table.\<close>

definition released_ids :: "Product list \<Rightarrow> Reservation list \<Rightarrow> uuid set" where
  "released_ids ptbl rs =
     set (map res_ID (filter (\<lambda>r. res_ProductID r \<in> set (map prod_ID ptbl)) rs))"

definition mark_released :: "uuid set \<Rightarrow> Reservation \<Rightarrow> Reservation" where
  "mark_released ids x = (if res_ID x \<in> ids then x\<lparr>res_Status := InventoryStatusReleased\<rparr> else x)"


section \<open>Unfolding rules\<close>

lemmas event_type_defs =
  OrderCreatedEvent_def OrderCompletedEvent_def OrderCancelledEvent_def
  PaymentProcessedEvent_def PaymentFailedEvent_def PaymentRefundedEvent_def
  InventoryReservedEvent_def InventoryFailedEvent_def InventoryReleasedEvent_def
  ShippingCreatedEvent_def ShippingFailedEvent_def ShippingCancelledEvent_def
  NotificationSentEvent_def NotificationFailedEvent_def

lemmas orchestrator_defs =
  ProcessIncomingEvent_def with_payload_map_def HandleStepSuccess_def HandleStepFailure_def
  HandleCompensationSuccess_def startCompensation_def compensationCompleted_def
  processNextStep_def completeSaga_def sendStepEvent_def sendCompensationEvent_def
  PublishSagaEvent_def orchestrator_event_def GetSagaByID_def UpdateSaga_def
  MarkStepCompleted_def IsStepCompleted_def GetNextStep_def MarkCompensationCompleted_def
  IsCompensationCompleted_def GetCompensationStep_def merge_step_outputs_def jget_def

lemmas inventory_defs =
  ReserveInventory_def ReleaseInventory_def GetProductByID_def CanReserve_def Reserve_def
  Inventory_Release_def Reservation_Release_def UpdateProduct_def CreateReservation_def
  UpdateReservation_def GetReservationsBySagaID_def NewReservationAggregate_def
  publishInventoryReservedEvent_def publishInventoryFailedEvent_def
  publishInventoryReleasedEvent_def inv_publish_def inventory_event_def

lemmas payment_defs =
  ProcessPayment_def ProcessRefund_def locate_payment_def NewPaymentAggregate_def
  Payment_ProcessPayment_def FailPayment_def CreatePayment_def UpdatePayment_def
  UpdatePayment_ignoring_error_def payment_checks_def GetPaymentByID_def
  GetPaymentsBySagaID_def publishPaymentProcessedEvent_def publishPaymentFailedEvent_def
  publishPaymentRefundedEvent_def publishRefundFailedEvent_def pay_publish_def

section \<open>Orchestrator: starting a saga\<close>

lemma map_if_find_None:
  "find P tbl = None \<Longrightarrow> map (\<lambda>r. if P r then f r else r) tbl = tbl"
  by (induction tbl) (auto split: if_splits)

lemma find_append_new:
  "find P tbl = None \<Longrightarrow> P x \<Longrightarrow> find P (tbl @ [x]) = Some x"
  by (induction tbl) (auto split: if_splits)

lemma UpdateSaga_appended:
  assumes "find (\<lambda>r. row_id r = ID saga) tbl = None" and "row_id x = ID saga"
  shows "UpdateSaga (tbl @ [x]) saga =
     Inr (tbl @ [x\<lparr>row_status := Status saga, row_current_step := CurrentStep saga,
                   row_completed_steps := CompletedSteps saga,
                   row_failure_reason := FailureReason saga,
                   row_context := Context saga, row_completed_at := CompletedAt saga\<rparr>])"
proof -
  have "find (\<lambda>r. row_id r = ID saga) (tbl @ [x]) = Some x"
    using assms by (rule find_append_new)
  then show ?thesis
    using assms by (simp add: UpdateSaga_def map_if_find_None)
qed

text \<open>
  What \<^verbatim>\<open>StartSaga\<close> does when it is called with an order that has no saga yet: it
  inserts the instance as \<open>started\<close> with \<open>[order_created]\<close>, moves it to \<open>in_progress\<close>
  at once and publishes \<^verbatim>\<open>payment.process\<close>.
\<close>

lemma StartSaga_fresh:
  assumes "find (\<lambda>r. row_id r = sagaID \<or> row_order_id r = order_ID order) (sagas w) = None"
  shows "StartSaga w sagaID order =
     (w\<lparr>sagas := sagas w @
           [\<lparr>row_id = sagaID, row_order_id = order_ID order,
             row_customer_id = order_CustomerID order, row_status = SagaStatusInProgress,
             row_current_step = StepOrderCreated, row_completed_steps = [StepOrderCreated],
             row_failure_reason = [],
             row_context = [(''order'', order_json order),
                            (''total_amount'', JNum (order_TotalAmount order)),
                            (''items'', JList (map item_json (order_Items order))),
                            (''retry_counts'', JObj [])],
             row_completed_at = False\<rparr>],
         published := published w @
           [\<lparr>ev_SagaID = sagaID, ev_OrderID = order_ID order, EventType = ''payment.process'',
             Payload = JObj [(''order_id'', JUuid (order_ID order)),
                             (''customer_id'', JUuid (order_CustomerID order)),
                             (''amount'', JNum (order_TotalAmount order)),
                             (''payment_method'', JStr ''credit_card'')],
             Service = ''saga-orchestrator''\<rparr>]\<rparr>, Done)"
proof -
  let ?saga = "\<lparr>ID = sagaID, OrderID = order_ID order, CustomerID = order_CustomerID order,
                  Status = SagaStatusStarted, CurrentStep = StepOrderCreated,
                  CompletedSteps = [StepOrderCreated], FailureReason = [],
                  CompletedAt = False, CompensatedSteps = [],
                  Context = [(''order'', order_json order),
                             (''total_amount'', JNum (order_TotalAmount order)),
                             (''items'', JList (map item_json (order_Items order))),
                             (''retry_counts'', JObj [])]\<rparr>"
  let ?saga2 = "\<lparr>ID = sagaID, OrderID = order_ID order, CustomerID = order_CustomerID order,
                  Status = SagaStatusInProgress, CurrentStep = StepOrderCreated,
                  CompletedSteps = [StepOrderCreated], FailureReason = [],
                  CompletedAt = False, CompensatedSteps = [],
                  Context = [(''order'', order_json order),
                             (''total_amount'', JNum (order_TotalAmount order)),
                             (''items'', JList (map item_json (order_Items order))),
                             (''retry_counts'', JObj [])]\<rparr>"
  let ?row = "\<lparr>row_id = sagaID, row_order_id = order_ID order,
        row_customer_id = order_CustomerID order, row_status = SagaStatusStarted,
        row_current_step = StepOrderCreated, row_completed_steps = [StepOrderCreated],
        row_failure_reason = [],
        row_context = [(''order'', order_json order),
                       (''total_amount'', JNum (order_TotalAmount order)),
                       (''items'', JList (map item_json (order_Items order))),
                       (''retry_counts'', JObj [])],
        row_completed_at = False\<rparr>"
  from assms have idfree: "find (\<lambda>r. row_id r = ID ?saga2) (sagas w) = None"
    by (auto simp: find_None_iff)
  have created: "CreateSaga (sagas w) ?saga = Inr (sagas w @ [?row])"
    using assms by (simp add: CreateSaga_def)
  have next_step: "GetNextStep ?saga = StepPaymentProcessed"
    by (simp add: GetNextStep_def)
  have s2: "?saga\<lparr>Status := SagaStatusInProgress\<rparr> = ?saga2"
    by simp
  have updated: "UpdateSaga (sagas w @ [?row]) ?saga2 =
      Inr (sagas w @ [?row\<lparr>row_status := SagaStatusInProgress\<rparr>])"
    using UpdateSaga_appended [OF idfree, of ?row] by simp
  show ?thesis
    unfolding StartSaga_def Let_def created sum.case processNextStep_def next_step s2
    by (simp add: updated sendStepEvent_def PublishSagaEvent_def orchestrator_event_def jget_def)
qed

text \<open>
  C1. The event-processing function has no branch for \<^verbatim>\<open>order.created\<close>: whatever the
  table holds and whatever else the envelope carries, the event falls to the default
  branch, which returns nil. No saga instance is created or persisted and no
  \<^verbatim>\<open>payment.process\<close> is published; \<^verbatim>\<open>StartSaga\<close>, which would do both, is not
  reached.
\<close>

theorem order_created_is_not_dispatched:
  "ProcessIncomingEvent w (event\<lparr>EventType := OrderCreatedEvent\<rparr>) = (w, Done)"
  by (simp add: ProcessIncomingEvent_def event_type_defs)

section \<open>Orchestrator: failure replies\<close>

lemma GetSagaByID_found:
  assumes "GetSagaByID tbl sagaID = Inr saga"
  shows "ID saga = sagaID \<and> find (\<lambda>r. row_id r = ID saga) tbl \<noteq> None
         \<and> CompensatedSteps saga = []"
proof -
  from assms obtain r where r: "find (\<lambda>r. row_id r = sagaID) tbl = Some r"
    by (auto simp: GetSagaByID_def split: option.splits)
  then have "row_id r = sagaID"
    by (auto simp: find_Some_iff)
  with assms r show ?thesis
    by (auto simp: GetSagaByID_def)
qed

lemma GetCompensationStep_cong:
  "CompletedSteps s' = CompletedSteps s \<Longrightarrow> CompensatedSteps s' = CompensatedSteps s
   \<Longrightarrow> GetCompensationStep s' = GetCompensationStep s"
  by (simp add: GetCompensationStep_def IsStepCompleted_def IsCompensationCompleted_def)

text \<open>
  \<^verbatim>\<open>payment.failed\<close> and \<^verbatim>\<open>inventory.failed\<close> for an existing saga with something to
  compensate: the reason of the payload and the status \<open>compensating\<close> are persisted, and
  the command of the first applicable compensation step is published.
\<close>

lemma forward_failure_starts_compensation:
  assumes ty: "EventType event = PaymentFailedEvent \<or> EventType event = InventoryFailedEvent"
    and payload: "Payload event = JObj d" "jget d ''reason'' = JStr reason"
    and found: "GetSagaByID (sagas w) (ev_SagaID event) = Inr saga"
    and applicable: "GetCompensationStep saga \<noteq> StepEmpty"
  shows "\<exists>tbl. UpdateSaga (sagas w)
                  (saga\<lparr>FailureReason := reason, Status := SagaStatusCompensating\<rparr>) = Inr tbl
              \<and> ProcessIncomingEvent w event =
                  sendCompensationEvent (w\<lparr>sagas := tbl\<rparr>)
                    (saga\<lparr>FailureReason := reason, Status := SagaStatusCompensating\<rparr>)
                    (GetCompensationStep saga)"
proof -
  let ?saga = "saga\<lparr>FailureReason := reason, Status := SagaStatusCompensating\<rparr>"
  from GetSagaByID_found [OF found]
  have "find (\<lambda>r. row_id r = ID saga) (sagas w) \<noteq> None" by blast
  then have "find (\<lambda>r. row_id r = ID ?saga) (sagas w) \<noteq> None" by simp
  then obtain tbl where upd: "UpdateSaga (sagas w) ?saga = Inr tbl"
    by (auto simp: UpdateSaga_def)
  have step: "GetCompensationStep ?saga = GetCompensationStep saga"
    by (rule GetCompensationStep_cong) simp_all
  have "\<And>failedStep. HandleStepFailure w (ev_SagaID event) failedStep d =
          sendCompensationEvent (w\<lparr>sagas := tbl\<rparr>) ?saga (GetCompensationStep saga)"
    using applicable
    by (simp add: HandleStepFailure_def found payload startCompensation_def step upd Let_def)
  with ty payload upd show ?thesis
    by (auto simp: ProcessIncomingEvent_def with_payload_map_def event_type_defs)
qed

text \<open>
  C2. Of the three failure replies of forward steps, \<^verbatim>\<open>shipping.failed\<close> has no branch
  in the event-processing function: for every table and envelope it returns nil with the
  saga untouched, so no reason is recorded, the status does not become \<open>compensating\<close>
  and no compensation command is published.
\<close>

theorem shipping_failed_is_not_dispatched:
  "ProcessIncomingEvent w (event\<lparr>EventType := ShippingFailedEvent\<rparr>) = (w, Done)"
  by (simp add: ProcessIncomingEvent_def event_type_defs)



section \<open>Orchestrator: compensation replies\<close>

text \<open>
  A loaded saga that has completed \<open>order_created\<close> always has a compensation step left
  after a participant's compensation reply is marked, because the marks of earlier
  replies are not in the row: \<^verbatim>\<open>compensationCompleted\<close> is not reached for it.
\<close>

lemma compensation_never_finishes:
  assumes "GetSagaByID tbl sagaID = Inr saga"
    and "StepOrderCreated \<in> set (CompletedSteps saga)"
    and "c \<noteq> StepOrderCancelled"
  shows "GetCompensationStep (MarkCompensationCompleted saga c) \<noteq> StepEmpty"
  using GetSagaByID_found [OF assms(1)] assms(2,3)
  by (simp add: GetCompensationStep_def MarkCompensationCompleted_def IsStepCompleted_def
      IsCompensationCompleted_def)

text \<open>
  C3. Handling \<^verbatim>\<open>payment.refunded\<close> for the compensating saga of the scenario publishes
  \<^verbatim>\<open>order.cancel\<close> and leaves the row exactly as it was: the mark \<open>payment_refunded\<close>
  lives only in the instance in memory. A load of the saga afterwards returns an empty
  list of compensated steps.
\<close>

theorem compensation_step_is_not_persisted:
  "ProcessIncomingEvent compensating_world payment_refunded_reply =
     (\<lparr>sagas = [compensating_row],
       published = [\<lparr>ev_SagaID = 1, ev_OrderID = 10, EventType = ''order.cancel'',
                     Payload = JObj [(''order_id'', JUuid 10),
                                     (''reason'', JStr ''Insufficient stock'')],
                     Service = ''saga-orchestrator''\<rparr>]\<rparr>, Done)
   \<and> GetSagaByID [compensating_row] 1 =
       Inr \<lparr>ID = 1, OrderID = 10, CustomerID = 20, Status = SagaStatusCompensating,
            CurrentStep = StepPaymentProcessed,
            CompletedSteps = [StepOrderCreated, StepPaymentProcessed],
            FailureReason = ''Insufficient stock'', CompletedAt = False,
            CompensatedSteps = [],
            Context = [(''total_amount'', JNum 100), (''items'', JList []),
                       (''payment_id'', JNil), (''transaction_id'', JNil)]\<rparr>"
  by (simp add: orchestrator_defs event_type_defs compensating_world_def
      compensating_row_def payment_refunded_reply_def)

section \<open>Orchestrator: a success reply delivered twice\<close>

lemma find_map_same_key:
  assumes "\<And>r. row_id (f r) = row_id r"
  shows "find (\<lambda>r. row_id r = i) (map (\<lambda>r. if row_id r = i then f r else r) tbl)
           = map_option f (find (\<lambda>r. row_id r = i) tbl)"
  using assms by (induction tbl) auto

lemma GetSagaByID_after_UpdateSaga:
  assumes "GetSagaByID tbl sagaID = Inr saga0" and "ID saga = ID saga0"
    and "OrderID saga = OrderID saga0" and "CustomerID saga = CustomerID saga0"
  shows "\<exists>tbl'. UpdateSaga tbl saga = Inr tbl'
           \<and> GetSagaByID tbl' sagaID = Inr (saga\<lparr>CompensatedSteps := []\<rparr>)"
proof -
  from assms(1) obtain r where r: "find (\<lambda>r. row_id r = sagaID) tbl = Some r"
    by (auto simp: GetSagaByID_def split: option.splits)
  then have rid: "row_id r = sagaID"
    by (auto simp: find_Some_iff)
  from r rid assms(1) have s0: "ID saga0 = sagaID" "OrderID saga0 = row_order_id r"
    "CustomerID saga0 = row_customer_id r"
    by (auto simp: GetSagaByID_def)
  let ?f = "\<lambda>r. r\<lparr>row_status := Status saga, row_current_step := CurrentStep saga,
                    row_completed_steps := CompletedSteps saga,
                    row_failure_reason := FailureReason saga,
                    row_context := Context saga, row_completed_at := CompletedAt saga\<rparr>"
  have upd: "UpdateSaga tbl saga = Inr (map (\<lambda>r. if row_id r = sagaID then ?f r else r) tbl)"
    using r assms(2) s0 by (simp add: UpdateSaga_def)
  have "find (\<lambda>r. row_id r = sagaID) (map (\<lambda>r. if row_id r = sagaID then ?f r else r) tbl)
          = Some (?f r)"
    using find_map_same_key [of ?f sagaID tbl] r by simp
  with rid have "GetSagaByID (map (\<lambda>r. if row_id r = sagaID then ?f r else r) tbl) sagaID
          = Inr (saga\<lparr>CompensatedSteps := []\<rparr>)"
    using assms(2-4) s0 by (simp add: GetSagaByID_def)
  with upd show ?thesis by blast
qed

text \<open>
  Whatever step a loaded saga stands at, a success reply for \<open>payment_processed\<close>,
  \<open>inventory_reserved\<close> or \<open>shipping_created\<close> persists that step as the current one.
\<close>

lemma replayed_success_sets_current_step:
  assumes found: "GetSagaByID (sagas w) sagaID = Inr saga"
    and step: "step = StepPaymentProcessed \<or> step = StepInventoryReserved \<or> step = StepShippingCreated"
  shows "\<exists>w' s'. HandleStepSuccess w sagaID step d = (w', Done)
           \<and> GetSagaByID (sagas w') sagaID = Inr s'
           \<and> CurrentStep s' = step \<and> Status s' = SagaStatusInProgress"
proof -
  let ?s2 = "(MarkStepCompleted saga step)\<lparr>Context :=
               merge_step_outputs step d (Context (MarkStepCompleted saga step))\<rparr>"
  let ?s3 = "?s2\<lparr>Status := SagaStatusInProgress\<rparr>"
  have cur: "CurrentStep ?s2 = step"
    by (simp add: MarkStepCompleted_def Let_def)
  have nxt: "GetNextStep ?s2 \<noteq> StepEmpty"
    using step by (auto simp: GetNextStep_def cur)
  have keep: "ID ?s3 = ID saga" "OrderID ?s3 = OrderID saga" "CustomerID ?s3 = CustomerID saga"
    by (simp_all add: MarkStepCompleted_def Let_def)
  from GetSagaByID_after_UpdateSaga [OF found keep]
  obtain tbl' where upd: "UpdateSaga (sagas w) ?s3 = Inr tbl'"
    and load: "GetSagaByID tbl' sagaID = Inr (?s3\<lparr>CompensatedSteps := []\<rparr>)"
    by blast
  have sent: "\<exists>e. sendStepEvent (w\<lparr>sagas := tbl'\<rparr>) ?s3 (GetNextStep ?s2)
                 = (w\<lparr>sagas := tbl', published := published w @ [e]\<rparr>, Done)"
    using step by (auto simp: GetNextStep_def cur sendStepEvent_def PublishSagaEvent_def)
  then obtain e where e: "sendStepEvent (w\<lparr>sagas := tbl'\<rparr>) ?s3 (GetNextStep ?s2)
                 = (w\<lparr>sagas := tbl', published := published w @ [e]\<rparr>, Done)"
    by blast
  have "HandleStepSuccess w sagaID step d
          = (w\<lparr>sagas := tbl', published := published w @ [e]\<rparr>, Done)"
    using nxt by (simp add: HandleStepSuccess_def found processNextStep_def Let_def upd e)
  moreover have "CurrentStep (?s3\<lparr>CompensatedSteps := []\<rparr>) = step"
    by (simp add: MarkStepCompleted_def Let_def)
  ultimately show ?thesis
    using load by auto
qed

text \<open>
  C4. The saga of the scenario has completed \<open>payment_processed\<close> and stands at
  \<open>inventory_reserved\<close>. Processing \<^verbatim>\<open>payment.processed\<close> once more persists
  \<open>payment_processed\<close> as the current step, a step back, and publishes
  \<^verbatim>\<open>inventory.reserve\<close> again.
\<close>

theorem duplicate_success_regresses_current_step:
  "ProcessIncomingEvent advanced_world duplicate_payment_processed =
     (\<lparr>sagas = [advanced_row\<lparr>row_current_step := StepPaymentProcessed\<rparr>],
       published = [\<lparr>ev_SagaID = 1, ev_OrderID = 10, EventType = ''inventory.reserve'',
                     Payload = JObj [(''order_id'', JUuid 10), (''items'', JList [])],
                     Service = ''saga-orchestrator''\<rparr>]\<rparr>, Done)"
  by (simp add: orchestrator_defs event_type_defs advanced_world_def advanced_row_def
      duplicate_payment_processed_def)

section \<open>Inventory participant: reserve and release\<close>

text \<open>
  At an item whose product is missing or short of stock the loop returns with the store
  as the earlier iterations left it, the failure event appended.
\<close>

lemma reserve_items_stops_at_failure:
  assumes "GetProductByID (products store) (ri_ProductID item) = None
           \<or> (\<exists>p. GetProductByID (products store) (ri_ProductID item) = Some p
                  \<and> \<not> CanReserve p (ri_Quantity item))"
  shows "reserve_items store fresh n request (item # rest) acc =
           publishInventoryFailedEvent store (rq_SagaID request) (rq_OrderID request)
             (ri_ProductID item)
             (if GetProductByID (products store) (ri_ProductID item) = None
              then ''Product not found'' else ''Insufficient stock'')"
  using assms by auto

text \<open>
  C5. In the scenario the first item fits and the second does not. The handler publishes
  \<^verbatim>\<open>inventory.failed\<close> for the second product with the reason "Insufficient stock",
  and returns with the first item still reserved: the first product's reserved stock is
  2 instead of 0, and its reservation row is in status \<open>reserved\<close>.
\<close>

theorem failed_reserve_keeps_earlier_reservation:
  "ReserveInventory shop (\<lambda>n. 100 + n) short_request =
     (\<lparr>products = [\<lparr>prod_ID = 1, prod_Name = ''Laptop Pro 15'', prod_Price = 1299.99,
                     Stock = 50, ReservedStock = 2\<rparr>,
                   \<lparr>prod_ID = 2, prod_Name = ''Wireless Mouse'', prod_Price = 49.99,
                     Stock = 1, ReservedStock = 0\<rparr>],
       reservations = [\<lparr>res_ID = 100, res_OrderID = 10, res_ProductID = 1, res_SagaID = 7,
                         res_Quantity = 2, res_Status = InventoryStatusReserved\<rparr>],
       inv_published = [\<lparr>ev_SagaID = 7, ev_OrderID = 10, EventType = ''inventory.failed'',
                         Payload = JObj [(''order_id'', JUuid 10), (''product_id'', JUuid 2),
                                         (''reason'', JStr ''Insufficient stock'')],
                         Service = ''inventory-service''\<rparr>]\<rparr>, Done)"
  by (simp add: inventory_defs event_type_defs shop_def short_request_def Let_def)

lemma UpdateProduct_ids:
  "UpdateProduct tbl product = Some t \<Longrightarrow> map prod_ID t = map prod_ID tbl"
  by (auto simp: UpdateProduct_def split: if_splits)

lemma release_reservations_product_ids:
  "map prod_ID (products (release_reservations store rs)) = map prod_ID (products store)"
proof (induction rs arbitrary: store)
  case Nil
  show ?case by simp
next
  case (Cons r rest)
  show ?case
  proof (cases "GetProductByID (products store) (res_ProductID r)")
    case None
    then show ?thesis using Cons.IH by simp
  next
    case (Some product0)
    then show ?thesis
      using Cons.IH
      by (auto simp: Let_def UpdateProduct_ids split: option.splits)
  qed
qed

lemma GetProductByID_None_iff:
  "GetProductByID tbl i = None \<longleftrightarrow> i \<notin> set (map prod_ID tbl)"
  by (auto simp: GetProductByID_def find_None_iff)

lemma release_reservations_statuses:
  "reservations (release_reservations store rs) =
     map (mark_released (released_ids (products store) rs)) (reservations store)"
proof (induction rs arbitrary: store)
  case Nil
  show ?case by (simp add: released_ids_def mark_released_def)
next
  case (Cons r rest)
  show ?case
  proof (cases "GetProductByID (products store) (res_ProductID r)")
    case None
    then have "res_ProductID r \<notin> set (map prod_ID (products store))"
      by (simp add: GetProductByID_None_iff)
    then have "released_ids (products store) (r # rest) = released_ids (products store) rest"
      by (auto simp: released_ids_def)
    with None Cons.IH show ?thesis by simp
  next
    case (Some product0)
    then have present: "res_ProductID r \<in> set (map prod_ID (products store))"
      using GetProductByID_None_iff [of "products store" "res_ProductID r"] by simp
    define ptbl where "ptbl = (case UpdateProduct (products store)
                                 (Inventory_Release product0 (res_Quantity r)) of
                                 None \<Rightarrow> products store | Some t \<Rightarrow> t)"
    have ids: "map prod_ID ptbl = map prod_ID (products store)"
      by (auto simp: ptbl_def UpdateProduct_ids split: option.splits)
    have same: "released_ids ptbl rest = released_ids (products store) rest"
      by (simp add: released_ids_def ids)
    have ins: "released_ids (products store) (r # rest)
                 = insert (res_ID r) (released_ids (products store) rest)"
      using present by (auto simp: released_ids_def)
    have step: "release_reservations store (r # rest) =
        release_reservations
          (store\<lparr>products := ptbl,
                 reservations := UpdateReservation (reservations store) (Reservation_Release r)\<rparr>)
          rest"
      using Some by (simp add: Let_def ptbl_def)
    show ?thesis
      unfolding step Cons.IH
      by (auto simp: same ins UpdateReservation_def Reservation_Release_def mark_released_def)
  qed
qed

lemma mark_released_keeps:
  "res_ID (mark_released ids x) = res_ID x"
  "res_ProductID (mark_released ids x) = res_ProductID x"
  "res_SagaID (mark_released ids x) = res_SagaID x"
  by (simp_all add: mark_released_def)

lemma mark_released_idem:
  "mark_released ids (mark_released ids x) = mark_released ids x"
  by (simp add: mark_released_def)

lemma released_ids_map:
  "released_ids ptbl (map (mark_released ids) rs) = released_ids ptbl rs"
  by (simp add: released_ids_def filter_map o_def mark_released_keeps)

lemma filter_saga_map:
  "GetReservationsBySagaID (map (mark_released ids) tbl) sagaID
     = map (mark_released ids) (GetReservationsBySagaID tbl sagaID)"
  by (simp add: GetReservationsBySagaID_def filter_map o_def mark_released_keeps)

text \<open>
  The reservation table, and so every reservation's status, is the same after a second
  release as after the first; the products are not covered by this.
\<close>

lemma release_twice_same_statuses:
  "reservations (fst (ReleaseInventory (fst (ReleaseInventory store request)) request))
     = reservations (fst (ReleaseInventory store request))"
proof -
  let ?rs = "GetReservationsBySagaID (reservations store) (rl_SagaID request)"
  let ?ids = "released_ids (products store) ?rs"
  let ?s1 = "fst (ReleaseInventory store request)"
  have r1: "reservations ?s1 = map (mark_released ?ids) (reservations store)"
    by (simp add: ReleaseInventory_def publishInventoryReleasedEvent_def inv_publish_def
        Let_def release_reservations_statuses)
  have p1: "map prod_ID (products ?s1) = map prod_ID (products store)"
    by (simp add: ReleaseInventory_def publishInventoryReleasedEvent_def inv_publish_def
        Let_def release_reservations_product_ids)
  have ids2: "released_ids (products ?s1)
                (GetReservationsBySagaID (reservations ?s1) (rl_SagaID request)) = ?ids"
    by (simp add: r1 filter_saga_map released_ids_map) (simp add: released_ids_def p1)
  have "reservations (fst (ReleaseInventory ?s1 request))
          = map (mark_released ?ids) (reservations ?s1)"
    using ids2
    by (simp add: ReleaseInventory_def [of ?s1] publishInventoryReleasedEvent_def inv_publish_def
        Let_def release_reservations_statuses)
  then show ?thesis
    by (simp add: r1 mark_released_idem)
qed

text \<open>
  C6. In the scenario a product with reserved stock 5 is held by saga 7 (quantity 2) and
  saga 8 (quantity 3). The first release for saga 7 brings the reserved stock to 3 and
  sets its reservation to \<open>released\<close>; the second release for saga 7 decrements again,
  to 1, although no reservation of saga 7 is in status \<open>reserved\<close> any more.
\<close>

theorem second_release_decrements_again:
  "map ReservedStock (products (fst (ReleaseInventory shared_stock release_request))) = [3]
   \<and> map res_Status (reservations (fst (ReleaseInventory shared_stock release_request)))
       = [InventoryStatusReleased, InventoryStatusReserved]
   \<and> map ReservedStock (products (fst (ReleaseInventory
         (fst (ReleaseInventory shared_stock release_request)) release_request))) = [1]"
  by (simp add: inventory_defs event_type_defs shared_stock_def release_request_def Let_def)

section \<open>Payment participant: a command delivered twice\<close>

text \<open>
  C7, as stated, fails in the scenario: order 10 has a completed payment, and a second
  \<^verbatim>\<open>payment.process\<close> for it, with a gateway that would approve, leaves the table as
  it was and publishes \<^verbatim>\<open>payment.failed\<close> with the reason "Database error", not
  \<^verbatim>\<open>payment.processed\<close>.
\<close>

theorem duplicate_payment_is_reported_failed:
  "pay_Status paid_row = PaymentStatusCompleted
   \<and> map EventType (pay_published
         (fst (ProcessPayment paid_store 31 approving_gateway duplicate_process_request)))
       = [PaymentFailedEvent]
   \<and> ProcessPayment paid_store 31 approving_gateway duplicate_process_request =
       (\<lparr>payments = [paid_row],
         pay_published = [\<lparr>ev_SagaID = 1, ev_OrderID = 10, EventType = ''payment.failed'',
                           Payload = JObj [(''order_id'', JUuid 10),
                                           (''reason'', JStr ''Database error''),
                                           (''amount'', JNum 100)],
                           Service = ''payment-service''\<rparr>]\<rparr>, Done)"
  by (simp add: payment_defs event_type_defs paid_store_def paid_row_def
      duplicate_process_request_def approving_gateway_def Let_def)

text \<open>
  C7, amended. For every \<^verbatim>\<open>payment.process\<close> command whose order already has a
  payment row, whatever that row's status and whatever the gateway would answer: the
  payments table is left exactly as it was (no second row, the existing row untouched),
  and the handler publishes one \<^verbatim>\<open>payment.failed\<close> event, with the reason
  "Database error" for the rejected insert (or "Invalid payment amount" when the
  amount is not positive), and returns nil.
\<close>

theorem duplicate_payment_collides:
  assumes "find (\<lambda>r. pay_OrderID r = pp_OrderID request) (payments store) \<noteq> None"
  shows "ProcessPayment store newID gw request =
     (store\<lparr>pay_published := pay_published store @
         [\<lparr>ev_SagaID = pp_SagaID request, ev_OrderID = pp_OrderID request,
           EventType = PaymentFailedEvent,
           Payload = JObj [(''order_id'', JUuid (pp_OrderID request)),
                           (''reason'', JStr (if pp_Amount request \<le> 0
                                              then ''Invalid payment amount''
                                              else ''Database error'')),
                           (''amount'', JNum (pp_Amount request))],
           Service = ''payment-service''\<rparr>]\<rparr>, Done)"
proof -
  from assms obtain r where "r \<in> set (payments store)" "pay_OrderID r = pp_OrderID request"
    by (auto simp: find_None_iff)
  then have collide: "find (\<lambda>r. pay_ID r = newID \<or> pay_OrderID r = pp_OrderID request)
                        (payments store) \<noteq> None"
    by (auto simp: find_None_iff)
  show ?thesis
    using collide
    by (simp add: ProcessPayment_def CreatePayment_def NewPaymentAggregate_def
        publishPaymentFailedEvent_def pay_publish_def Let_def)
qed

theorem duplicate_payment_collides_witness:
  "find (\<lambda>r. pay_OrderID r = pp_OrderID duplicate_process_request) (payments paid_store) \<noteq> None
   \<and> ProcessPayment paid_store 31 approving_gateway duplicate_process_request =
       (paid_store\<lparr>pay_published :=
           [\<lparr>ev_SagaID = 1, ev_OrderID = 10, EventType = PaymentFailedEvent,
             Payload = JObj [(''order_id'', JUuid 10), (''reason'', JStr ''Database error''),
                             (''amount'', JNum 100)],
             Service = ''payment-service''\<rparr>]\<rparr>, Done)"
proof -
  have h: "find (\<lambda>r. pay_OrderID r = pp_OrderID duplicate_process_request)
             (payments paid_store) \<noteq> None"
    by (simp add: paid_store_def paid_row_def duplicate_process_request_def)
  from duplicate_payment_collides [OF h, of 31 approving_gateway]
  show ?thesis
    using h by (simp add: paid_store_def duplicate_process_request_def)
qed

section \<open>Payment aggregate: the refund bounds\<close>







section \<open>Payment participant: a refund without a locator\<close>

text \<open>
  The compensation after \<^verbatim>\<open>inventory.failed\<close> of a saga whose context holds nil under
  \<^verbatim>\<open>payment_id\<close> and \<^verbatim>\<open>transaction_id\<close>: the orchestrator publishes
  \<^verbatim>\<open>payment.refund\<close> with both nil, and the payment handler, given that envelope,
  panics.
\<close>

lemma orchestrator_refund_command_panics:
  "ProcessIncomingEvent
     \<lparr>sagas = [advanced_row\<lparr>row_current_step := StepPaymentProcessed,
                              row_completed_steps := [StepOrderCreated, StepPaymentProcessed]\<rparr>],
      published = []\<rparr>
     \<lparr>ev_SagaID = 1, ev_OrderID = 10, EventType = InventoryFailedEvent,
      Payload = JObj [(''order_id'', JUuid 10), (''product_id'', JUuid 2),
                      (''reason'', JStr ''Insufficient stock'')],
      Service = ''inventory-service''\<rparr>
   = (\<lparr>sagas = [advanced_row\<lparr>row_current_step := StepPaymentProcessed,
                                row_completed_steps := [StepOrderCreated, StepPaymentProcessed],
                                row_status := SagaStatusCompensating,
                                row_failure_reason := ''Insufficient stock''\<rparr>],
       published = [\<lparr>ev_SagaID = 1, ev_OrderID = 10, EventType = ''payment.refund'',
                     Payload = JObj [(''payment_id'', JNil), (''transaction_id'', JNil),
                                     (''amount'', JNum 100),
                                     (''reason'', JStr ''Insufficient stock'')],
                     Service = ''saga-orchestrator''\<rparr>]\<rparr>, Done)
   \<and> handlePaymentRefundCommand parse paid_store gw
       \<lparr>ev_SagaID = 1, ev_OrderID = 10, EventType = ''payment.refund'',
        Payload = JObj [(''payment_id'', JNil), (''transaction_id'', JNil),
                        (''amount'', JNum 100), (''reason'', JStr ''Insufficient stock'')],
        Service = ''saga-orchestrator''\<rparr>
     = Some (paid_store, Panicked)"
  by (simp add: orchestrator_defs event_type_defs advanced_row_def
      handlePaymentRefundCommand_def mapToPaymentRefundRequest_def
      ProcessRefund_def locate_payment_def uuid_Nil_def)

text \<open>
  C10. For every store, gateway answer, saga, amount and reason, a refund request whose
  payment id is \<^verbatim>\<open>uuid.Nil\<close> and whose transaction id is empty makes \<^verbatim>\<open>ProcessRefund\<close>
  dereference the nil aggregate: it panics, with the store unchanged and nothing
  published, instead of publishing \<^verbatim>\<open>payment.refund.failed\<close> or returning an error.
\<close>

theorem refund_without_locator_panics:
  "ProcessRefund store gw \<lparr>pr_SagaID = sagaID, pr_PaymentID = uuid_Nil, pr_TransactionID = [],
                           pr_Amount = amount, pr_Reason = reason\<rparr> = (store, Panicked)"
  by (simp add: ProcessRefund_def locate_payment_def)

end
